theory Spec2Isabelle
  imports Main
begin

section \<open>Python values of \<open>LAB8/lab8.3.py\<close>\<close>

text \<open>
  The unifier of \<open>lab8.3.py\<close> works on untyped Python values: a term is a string, or a
  list whose first element is the functor and whose other elements are terms. When
  \<open>unify_var\<close> stores a list it first converts it with \<open>tuple(x)\<close>, so tuples appear
  as values of the substitution. \<open>tuple\<close> is shallow: the elements of the new tuple are
  the elements of the list, unchanged.

  Python's \<open>==\<close> on these values is structural, and a list never equals a tuple or a
  string, so HOL equality on \<open>pyval\<close> is Python's \<open>==\<close>.

  Strings are modelled as HOL strings; the model covers ASCII text.
\<close>

datatype pyval = Str string | List "pyval list" | Tuple "pyval list"

text \<open>
  The substitution is a Python \<open>dict\<close>. Its keys are compared with \<open>==\<close>, so it is a
  map from values to values. The source mutates the one dictionary in place and returns
  that same object; the model passes the map and returns the updated one.
\<close>

type_synonym subst = "pyval \<rightharpoonup> pyval"

text \<open>
  What a call can do: return the dictionary, return the string \<open>"FAILURE"\<close>, or raise.
  The only exception the functions can raise on these values is \<open>TypeError\<close>
  (\<open>unhashable type: 'list'\<close>, from a dictionary lookup); \<open>IndexError\<close> is what
  \<open>x[0]\<close> raises on an empty list.
\<close>

datatype exn = TypeError | IndexError

datatype ret = Subst subst | FAILURE

type_synonym outcome = "exn + ret"

subsection \<open>Built-ins the source uses\<close>

text \<open>\<open>str.islower()\<close>: at least one cased character, and no uppercase one.\<close>

definition lower_char :: "char \<Rightarrow> bool" where
  "lower_char c = (c \<in> set ''abcdefghijklmnopqrstuvwxyz'')"

definition upper_char :: "char \<Rightarrow> bool" where
  "upper_char c = (c \<in> set ''ABCDEFGHIJKLMNOPQRSTUVWXYZ'')"

definition islower :: "string \<Rightarrow> bool" where
  "islower s = (list_ex lower_char s \<and> \<not> list_ex upper_char s)"

text \<open>\<open>isinstance(x, str) and x.islower()\<close>: the source's test for a variable.\<close>

fun is_lower_str :: "pyval \<Rightarrow> bool" where
  "is_lower_str (Str s) = islower s"
| "is_lower_str (List xs) = False"
| "is_lower_str (Tuple xs) = False"

text \<open>\<open>isinstance(x, list)\<close> and \<open>isinstance(x, (list, tuple))\<close>.\<close>

fun is_list :: "pyval \<Rightarrow> bool" where
  "is_list (List xs) = True"
| "is_list (Str s) = False"
| "is_list (Tuple xs) = False"

fun is_list_or_tuple :: "pyval \<Rightarrow> bool" where
  "is_list_or_tuple (List xs) = True"
| "is_list_or_tuple (Tuple xs) = True"
| "is_list_or_tuple (Str s) = False"

text \<open>\<open>tuple(x)\<close> for a list or a tuple \<open>x\<close>.\<close>

fun tuple :: "pyval \<Rightarrow> pyval" where
  "tuple (List xs) = Tuple xs"
| "tuple (Tuple xs) = Tuple xs"
| "tuple (Str s) = Tuple (map (\<lambda>c. Str [c]) s)"

text \<open>
  \<open>hash(x)\<close> succeeds on a string, fails on a list, and on a tuple succeeds when it
  succeeds on every element. A dictionary lookup \<open>k in d\<close> or \<open>d[k]\<close> hashes \<open>k\<close> first
  and raises \<open>TypeError\<close> when that fails, whatever \<open>d\<close> holds.
\<close>

fun hashable :: "pyval \<Rightarrow> bool" where
  "hashable (Str s) = True"
| "hashable (List xs) = False"
| "hashable (Tuple xs) = list_all hashable xs"

section \<open>The unifier\<close>

text \<open>
  \<^verbatim>\<open>
  def occurs_check(var, x):
      if var == x:
          return True
      elif isinstance(x, list):
          return any(occurs_check(var, xi) for xi in x)
      return False
  \<close>
  The check descends into lists only: not into tuples, and not through the substitution.
\<close>

fun occurs_check :: "pyval \<Rightarrow> pyval \<Rightarrow> bool" where
  "occurs_check var (List xs) =
     (if var = List xs then True else list_ex (occurs_check var) xs)"
| "occurs_check var (Str s) = (if var = Str s then True else False)"
| "occurs_check var (Tuple xs) = (if var = Tuple xs then True else False)"

text \<open>
  \<open>unify\<close> and \<open>unify_var\<close> call each other, and nothing in the source bounds the
  nesting of these calls. The first argument of the model is the number of nested calls
  still allowed: a call with none left has no result (\<open>None\<close>). The \<open>for\<close> loop of
  \<open>unify\<close> is \<open>unify_args\<close>; it runs inside the frame of \<open>unify\<close> and calls \<open>unify\<close> once
  for each pair of arguments.

  \<^verbatim>\<open>
  def unify_var(var, x, subst):
      if var in subst:
          return unify(subst[var], x, subst)
      elif isinstance(x, (list, tuple)) and tuple(x) in subst:
          return unify(var, subst[tuple(x)], subst)
      elif occurs_check(var, x):
          return "FAILURE"
      else:
          subst[var] = tuple(x) if isinstance(x, list) else x
          return subst

  def unify(x, y, subst=None):
      if subst is None:
          subst = {}
      if x == y:
          return subst
      elif isinstance(x, str) and x.islower():
          return unify_var(x, y, subst)
      elif isinstance(y, str) and y.islower():
          return unify_var(y, x, subst)
      elif isinstance(x, list) and isinstance(y, list):
          if len(x) != len(y):
              return "FAILURE"
          if x[0] != y[0]:
              return "FAILURE"
          for xi, yi in zip(x[1:], y[1:]):
              subst = unify(xi, yi, subst)
              if subst == "FAILURE":
                  return "FAILURE"
          return subst
      else:
          return "FAILURE"
  \<close>
\<close>

fun unify :: "nat \<Rightarrow> pyval \<Rightarrow> pyval \<Rightarrow> subst \<Rightarrow> outcome option"
  and unify_var :: "nat \<Rightarrow> pyval \<Rightarrow> pyval \<Rightarrow> subst \<Rightarrow> outcome option"
  and unify_args :: "nat \<Rightarrow> (pyval \<times> pyval) list \<Rightarrow> subst \<Rightarrow> outcome option"
where
  "unify 0 x y subst = None"
| "unify (Suc d) x y subst =
     (if x = y then Some (Inr (Subst subst))
      else if is_lower_str x then unify_var d x y subst
      else if is_lower_str y then unify_var d y x subst
      else (case (x, y) of
              (List xs, List ys) \<Rightarrow>
                if length xs \<noteq> length ys then Some (Inr FAILURE)
                else (case (xs, ys) of
                        (x0 # xs', y0 # ys') \<Rightarrow>
                          if x0 \<noteq> y0 then Some (Inr FAILURE)
                          else unify_args d (zip xs' ys') subst
                      | _ \<Rightarrow> Some (Inl IndexError))
            | _ \<Rightarrow> Some (Inr FAILURE)))"
| "unify_var 0 var x subst = None"
| "unify_var (Suc d) var x subst =
     (if \<not> hashable var then Some (Inl TypeError)
      else if subst var \<noteq> None then unify d (the (subst var)) x subst
      else if is_list_or_tuple x \<and> \<not> hashable (tuple x) then Some (Inl TypeError)
      else if is_list_or_tuple x \<and> subst (tuple x) \<noteq> None
        then unify d var (the (subst (tuple x))) subst
      else if occurs_check var x then Some (Inr FAILURE)
      else Some (Inr (Subst (subst(var \<mapsto> (if is_list x then tuple x else x))))))"
| "unify_args d [] subst = Some (Inr (Subst subst))"
| "unify_args d ((xi, yi) # rest) subst =
     (case unify d xi yi subst of
        Some (Inr (Subst subst')) \<Rightarrow> unify_args d rest subst'
      | r \<Rightarrow> r)"

text \<open>
  \<^verbatim>\<open>
  def unify_and_check(expr1, expr2):
      result = unify(expr1, expr2)
      if result == "FAILURE":
          return False, None
      return True, result
  \<close>
  The call \<open>unify(expr1, expr2)\<close> starts from a fresh empty dictionary. An exception of
  \<open>unify\<close> passes through.
\<close>

definition unify_and_check :: "nat \<Rightarrow> pyval \<Rightarrow> pyval \<Rightarrow> (exn + bool \<times> subst option) option" where
  "unify_and_check d expr1 expr2 =
     (case unify d expr1 expr2 Map.empty of
        None \<Rightarrow> None
      | Some (Inl e) \<Rightarrow> Some (Inl e)
      | Some (Inr FAILURE) \<Rightarrow> Some (Inr (False, None))
      | Some (Inr (Subst result)) \<Rightarrow> Some (Inr (True, Some result)))"

section \<open>Dereferencing a store\<close>

text \<open>
  Modelled from the spec: \<open>resolve_chain\<close> (section 4.2), which the source does not
  have. "If term is a bound Variable, follow bindings transitively until reaching an
  unbound Variable, an Atom, or a Compound; returns the final term." A variable is what
  the source takes for one, a lowercase string. The chain of a store can be cyclic, so
  the first argument bounds the number of steps, and \<open>None\<close> says the bound was reached.
\<close>

fun resolve_chain :: "nat \<Rightarrow> pyval \<Rightarrow> subst \<Rightarrow> pyval option" where
  "resolve_chain 0 t store = None"
| "resolve_chain (Suc n) t store =
     (if is_lower_str t \<and> store t \<noteq> None
      then resolve_chain n (the (store t)) store
      else Some t)"

section \<open>General facts about the unifier\<close>

lemma map_le_upd_fresh: "s k = None \<Longrightarrow> s \<subseteq>\<^sub>m s(k \<mapsto> v)"
  by (auto simp: map_le_def)

text \<open>
  A result does not depend on the bound: once a call returns within \<open>d\<close> nested calls,
  it returns the same with any larger bound.
\<close>

lemma more_fuel_aux:
  shows "unify d x y s = Some r \<Longrightarrow> unify (d + k) x y s = Some r"
    and "unify_var d v t s = Some r \<Longrightarrow> unify_var (d + k) v t s = Some r"
    and "unify_args d ps s = Some r \<Longrightarrow> unify_args (d + k) ps s = Some r"
proof (induction d x y s and d v t s and d ps s arbitrary: r and r and r
    rule: unify_unify_var_unify_args.induct)
  case (2 d x y subst)
  then show ?case
    by (auto split: if_splits pyval.splits list.splits)
next
  case (4 d var x subst)
  then show ?case
    by (auto split: if_splits)
next
  case (6 d xi yi rest subst)
  then show ?case
    by (auto split: option.splits sum.splits ret.splits)
qed simp_all

lemma unify_result_unique:
  assumes "unify d1 x y s = Some r1" and "unify d2 x y s = Some r2"
  shows "r1 = r2"
proof -
  have "unify (d1 + d2) x y s = Some r1"
    using assms(1) by (rule more_fuel_aux(1))
  moreover have "unify (d2 + d1) x y s = Some r2"
    using assms(2) by (rule more_fuel_aux(1))
  ultimately show ?thesis
    by (simp add: add.commute)
qed

text \<open>
  \<open>x[0]\<close> is read only after \<open>x \<noteq> y\<close> and \<open>len(x) = len(y)\<close>, so neither list is
  empty there: no call raises \<open>IndexError\<close>.
\<close>

lemma no_index_error_aux:
  shows "unify d x y s \<noteq> Some (Inl IndexError)"
    and "unify_var d v t s \<noteq> Some (Inl IndexError)"
    and "unify_args d ps s \<noteq> Some (Inl IndexError)"
proof (induction d x y s and d v t s and d ps s
    rule: unify_unify_var_unify_args.induct)
  case (2 d x y subst)
  then show ?case
    by (auto split: if_splits pyval.splits list.splits)
next
  case (6 d xi yi rest subst)
  then show ?case
    by (auto split: option.splits sum.splits ret.splits)
qed auto

text \<open>
  The only assignment to the dictionary is \<open>subst[var] = ...\<close> in the last branch of
  \<open>unify_var\<close>, reached only when \<open>var in subst\<close> is false.
\<close>

lemma grows_aux:
  shows "unify d x y s = Some (Inr (Subst s')) \<Longrightarrow> s \<subseteq>\<^sub>m s'"
    and "unify_var d v t s = Some (Inr (Subst s')) \<Longrightarrow> s \<subseteq>\<^sub>m s'"
    and "unify_args d ps s = Some (Inr (Subst s')) \<Longrightarrow> s \<subseteq>\<^sub>m s'"
proof (induction d x y s and d v t s and d ps s arbitrary: s' and s' and s'
    rule: unify_unify_var_unify_args.induct)
  case (2 d x y subst)
  then show ?case
    by (auto split: if_splits pyval.splits list.splits)
next
  case (4 d var x subst)
  then show ?case
    by (auto split: if_splits intro: map_le_upd_fresh)
next
  case (6 d xi yi rest subst)
  from "6.prems" obtain s1 where
    u: "unify d xi yi subst = Some (Inr (Subst s1))" and
    r: "unify_args d rest s1 = Some (Inr (Subst s'))"
    by (auto split: option.splits sum.splits ret.splits)
  from "6.IH"(1)[OF u] "6.IH"(2)[OF u refl refl r] show ?case
    by (rule map_le_trans)
qed simp_all

lemmas py_eval = islower_def lower_char_def upper_char_def

text \<open>
  The store \<open>{x: y, y: x}\<close>: following the bindings from \<open>x\<close> never ends, and neither
  does unifying \<open>x\<close> or \<open>y\<close> with anything else under it.
\<close>

lemma cycle_never_returns:
  "unify d (Str ''x'') (Str ''a'') [Str ''x'' \<mapsto> Str ''y'', Str ''y'' \<mapsto> Str ''x''] = None
   \<and> unify d (Str ''y'') (Str ''a'') [Str ''x'' \<mapsto> Str ''y'', Str ''y'' \<mapsto> Str ''x''] = None
   \<and> unify_var d (Str ''x'') (Str ''a'') [Str ''x'' \<mapsto> Str ''y'', Str ''y'' \<mapsto> Str ''x''] = None
   \<and> unify_var d (Str ''y'') (Str ''a'') [Str ''x'' \<mapsto> Str ''y'', Str ''y'' \<mapsto> Str ''x''] = None"
  by (induction d) (simp_all add: py_eval)

lemma cycle_resolve:
  "resolve_chain n (Str ''x'') [Str ''x'' \<mapsto> Str ''y'', Str ''y'' \<mapsto> Str ''x''] = None
   \<and> resolve_chain n (Str ''y'') [Str ''x'' \<mapsto> Str ''y'', Str ''y'' \<mapsto> Str ''x''] = None"
  by (induction n) (simp_all add: py_eval)

text \<open>
  A variable against a list: with a nested list anywhere among the elements the lookup
  \<open>tuple(x) in subst\<close> raises; with hashable elements only, the variable is bound to
  the tuple, and unifying the two again compares that tuple with the list and fails.
\<close>

lemma nested_list_raises:
  "is_lower_str v \<Longrightarrow> \<not> list_all hashable ts \<Longrightarrow>
   unify (Suc (Suc d)) v (List ts) Map.empty = Some (Inl TypeError)"
  by (cases v) auto

lemma flat_list_bound_as_tuple:
  assumes "is_lower_str v" and "\<not> occurs_check v (List ts)" and "list_all hashable ts"
  shows "unify (Suc (Suc d)) v (List ts) Map.empty = Some (Inr (Subst [v \<mapsto> Tuple ts]))"
    and "unify (Suc (Suc (Suc d))) v (List ts) [v \<mapsto> Tuple ts] = Some (Inr FAILURE)"
  using assms by (cases v; auto)+

section \<open>The claims\<close>

text \<open>
  C1. The claim is that \<open>unify(x, y, {})\<close> returns for all terms, and that so does every
  call on a store the unifier built. On \<open>p(x, y, x)\<close> against \<open>p(y, x, a)\<close> the first two
  arguments leave the store \<open>{x: y, y: x}\<close>, and the third sends \<open>unify\<close> and
  \<open>unify_var\<close> round the cycle: whatever the bound on nested calls, the call has not
  returned. The same holds for \<open>unify("x", "a", s)\<close> on that store \<open>s\<close>, which C2 shows
  the unifier returns.
\<close>

theorem unify_from_empty_store_never_returns:
  "unify d (List [Str ''p'', Str ''x'', Str ''y'', Str ''x''])
           (List [Str ''p'', Str ''y'', Str ''x'', Str ''a'']) Map.empty = None
   \<and> unify d (Str ''x'') (Str ''a'') [Str ''x'' \<mapsto> Str ''y'', Str ''y'' \<mapsto> Str ''x''] = None"
proof -
  have "unify d (List [Str ''p'', Str ''x'', Str ''y'', Str ''x''])
           (List [Str ''p'', Str ''y'', Str ''x'', Str ''a'']) Map.empty = None"
  proof (cases d)
    case 0
    then show ?thesis by simp
  next
    case d: (Suc d1)
    show ?thesis
    proof (cases d1)
      case 0
      with d show ?thesis by (simp add: py_eval)
    next
      case d1: (Suc d2)
      show ?thesis
      proof (cases d2)
        case 0
        with d d1 show ?thesis by (simp add: py_eval)
      next
        case (Suc d3)
        have "unify (Suc (Suc d3)) (Str ''x'') (Str ''a'')
                [Str ''x'' \<mapsto> Str ''y'', Str ''y'' \<mapsto> Str ''x''] = None"
          using cycle_never_returns by blast
        with Suc d d1 show ?thesis by (simp add: py_eval)
      qed
    qed
  qed
  then show ?thesis
    using cycle_never_returns by blast
qed

text \<open>
  C2. The claim is that no store built from the empty one binds a variable to a term that
  resolves back to that variable. \<open>unify\<close> on \<open>p(x, y)\<close> against \<open>p(y, x)\<close> succeeds with
  the store \<open>{x: y, y: x}\<close>: \<open>occurs_check("y", "x")\<close> looks at the term \<open>"x"\<close> alone,
  not at what \<open>x\<close> is bound to. Resolving \<open>x\<close> through that store never reaches an end.
\<close>

theorem unify_builds_cyclic_store:
  "unify (d + 3) (List [Str ''p'', Str ''x'', Str ''y''])
                 (List [Str ''p'', Str ''y'', Str ''x'']) Map.empty
     = Some (Inr (Subst [Str ''x'' \<mapsto> Str ''y'', Str ''y'' \<mapsto> Str ''x'']))
   \<and> resolve_chain n (Str ''x'') [Str ''x'' \<mapsto> Str ''y'', Str ''y'' \<mapsto> Str ''x''] = None"
  using cycle_resolve by (simp add: eval_nat_numeral py_eval)

text \<open>
  C3. The claim is that \<open>unify(x, y, {})\<close> succeeds exactly when \<open>unify(y, x, {})\<close> does.
  \<open>p(x, x)\<close> against \<open>p(y, f(y))\<close> returns \<open>"FAILURE"\<close>; the same two terms in the other
  order succeed, with the store \<open>{y: x, x: ("f", "y")}\<close>.
\<close>

theorem unify_outcome_depends_on_order:
  "unify (d + 5) (List [Str ''p'', Str ''x'', Str ''x''])
       (List [Str ''p'', Str ''y'', List [Str ''f'', Str ''y'']]) Map.empty = Some (Inr FAILURE)
   \<and> unify (d + 5) (List [Str ''p'', Str ''y'', List [Str ''f'', Str ''y'']])
       (List [Str ''p'', Str ''x'', Str ''x'']) Map.empty =
     Some (Inr (Subst [Str ''y'' \<mapsto> Str ''x'', Str ''x'' \<mapsto> Tuple [Str ''f'', Str ''y'']]))"
  by (simp add: eval_nat_numeral py_eval)

text \<open>
  C4, as stated: every failing call returns one of two distinct outcomes, one for the
  occurs-check and one for a structural mismatch. It does not: \<open>x\<close> against \<open>f(x)\<close> and
  \<open>p(a)\<close> against \<open>p(a, b)\<close> return the same value, and \<open>unify_and_check\<close> gives the
  same pair for both.
\<close>

theorem failure_causes_not_distinct:
  "unify 2 (Str ''x'') (List [Str ''f'', Str ''x'']) Map.empty = Some (Inr FAILURE)
   \<and> unify 2 (List [Str ''p'', Str ''a'']) (List [Str ''p'', Str ''a'', Str ''b'']) Map.empty
       = Some (Inr FAILURE)
   \<and> unify_and_check 2 (Str ''x'') (List [Str ''f'', Str ''x''])
       = unify_and_check 2 (List [Str ''p'', Str ''a'']) (List [Str ''p'', Str ''a'', Str ''b''])"
  by (simp add: eval_nat_numeral py_eval unify_and_check_def)

text \<open>
  C4, amended. Every cause of failure gives the one value \<open>"FAILURE"\<close>: the occurs-check
  on an unbound variable against a list, lists of different lengths, lists with
  different first elements, and two different values that are neither variables nor
  both lists. \<open>unify_and_check\<close> turns \<open>"FAILURE"\<close> into \<open>(False, None)\<close>.
\<close>

theorem every_failure_is_FAILURE:
  "(is_lower_str v \<and> subst v = None \<and> list_all hashable ts \<and> subst (Tuple ts) = None
      \<and> occurs_check v (List ts)
      \<longrightarrow> unify (Suc (Suc d)) v (List ts) subst = Some (Inr FAILURE))
   \<and> (length xs \<noteq> length ys
      \<longrightarrow> unify (Suc d) (List xs) (List ys) subst = Some (Inr FAILURE))
   \<and> (f \<noteq> g \<and> length xs = length ys
      \<longrightarrow> unify (Suc d) (List (f # xs)) (List (g # ys)) subst = Some (Inr FAILURE))
   \<and> (\<not> is_lower_str x \<and> \<not> is_lower_str y \<and> x \<noteq> y \<and> \<not> (is_list x \<and> is_list y)
      \<longrightarrow> unify (Suc d) x y subst = Some (Inr FAILURE))
   \<and> (unify d x y Map.empty = Some (Inr FAILURE)
      \<longrightarrow> unify_and_check d x y = Some (Inr (False, None)))"
  by (cases x; cases y; cases v) (auto simp: unify_and_check_def)

theorem every_failure_is_FAILURE_witness:
  "unify 2 (Str ''x'') (List [Str ''f'', Str ''x'']) Map.empty = Some (Inr FAILURE)
   \<and> unify 1 (List [Str ''p'', Str ''a'']) (List [Str ''p'', Str ''a'', Str ''b'']) Map.empty
       = Some (Inr FAILURE)
   \<and> unify 1 (List [Str ''p'', Str ''a'']) (List [Str ''q'', Str ''a'']) Map.empty
       = Some (Inr FAILURE)
   \<and> unify 1 (Str ''A'') (List [Str ''f'', Str ''A'']) Map.empty = Some (Inr FAILURE)
   \<and> unify_and_check 2 (Str ''x'') (List [Str ''f'', Str ''x'']) = Some (Inr (False, None))"
proof -
  have occ: "unify (Suc (Suc 0)) (Str ''x'') (List [Str ''f'', Str ''x'']) Map.empty
       = Some (Inr FAILURE)"
    using every_failure_is_FAILURE
      [where v = "Str ''x''" and subst = Map.empty and ts = "[Str ''f'', Str ''x'']" and d = 0]
    by (simp add: py_eval)
  have len: "unify (Suc 0) (List [Str ''p'', Str ''a''])
       (List [Str ''p'', Str ''a'', Str ''b'']) Map.empty = Some (Inr FAILURE)"
    using every_failure_is_FAILURE
      [where xs = "[Str ''p'', Str ''a'']" and ys = "[Str ''p'', Str ''a'', Str ''b'']"
        and subst = Map.empty and d = 0]
    by simp
  have fn: "unify (Suc 0) (List [Str ''p'', Str ''a'']) (List [Str ''q'', Str ''a'']) Map.empty
       = Some (Inr FAILURE)"
    using every_failure_is_FAILURE
      [where xs = "[Str ''a'']" and ys = "[Str ''a'']" and f = "Str ''p''" and g = "Str ''q''"
        and subst = Map.empty and d = 0]
    by simp
  have other: "unify (Suc 0) (Str ''A'') (List [Str ''f'', Str ''A'']) Map.empty
       = Some (Inr FAILURE)"
    using every_failure_is_FAILURE
      [where x = "Str ''A''" and y = "List [Str ''f'', Str ''A'']" and subst = Map.empty
        and d = 0]
    by (simp add: py_eval)
  have chk: "unify_and_check (Suc (Suc 0)) (Str ''x'') (List [Str ''f'', Str ''x''])
       = Some (Inr (False, None))"
    using occ every_failure_is_FAILURE
      [where x = "Str ''x''" and y = "List [Str ''f'', Str ''x'']" and d = "Suc (Suc 0)"]
    by simp
  from occ len fn other chk show ?thesis
    by (simp add: eval_nat_numeral)
qed

text \<open>
  C5, as stated: \<open>unify("a", "a", {})\<close> returns the empty store and \<open>unify("a", "b", {})\<close>
  fails. The second half does not hold: \<open>"a"\<close> is a lowercase string, which the source
  takes for a variable, so the call succeeds and binds \<open>a\<close> to \<open>b\<close>.
\<close>

theorem lowercase_strings_unify:
  "unify 2 (Str ''a'') (Str ''b'') Map.empty = Some (Inr (Subst [Str ''a'' \<mapsto> Str ''b'']))
   \<and> unify 2 (Str ''a'') (Str ''b'') Map.empty \<noteq> Some (Inr FAILURE)"
  by (simp add: eval_nat_numeral py_eval)

text \<open>
  C5, amended. \<open>unify("a", "a", {})\<close> returns the empty store unchanged;
  \<open>unify("a", "b", {})\<close> succeeds with \<open>{a: b}\<close>; two different strings of which neither
  is lowercase, such as \<open>"A"\<close> and \<open>"B"\<close>, return \<open>"FAILURE"\<close> under any store.
\<close>

theorem unify_strings:
  "unify (Suc d) (Str ''a'') (Str ''a'') Map.empty = Some (Inr (Subst Map.empty))
   \<and> unify (Suc (Suc d)) (Str ''a'') (Str ''b'') Map.empty
       = Some (Inr (Subst [Str ''a'' \<mapsto> Str ''b'']))
   \<and> (s1 \<noteq> s2 \<and> \<not> islower s1 \<and> \<not> islower s2
      \<longrightarrow> unify (Suc d) (Str s1) (Str s2) subst = Some (Inr FAILURE))"
  by (simp add: py_eval)

theorem unify_strings_witness:
  "unify 1 (Str ''a'') (Str ''a'') Map.empty = Some (Inr (Subst Map.empty))
   \<and> unify 2 (Str ''a'') (Str ''b'') Map.empty = Some (Inr (Subst [Str ''a'' \<mapsto> Str ''b'']))
   \<and> unify 1 (Str ''A'') (Str ''B'') Map.empty = Some (Inr FAILURE)"
  using unify_strings [of 0 "''A''" "''B''" Map.empty]
  by (simp add: eval_nat_numeral py_eval)

text \<open>
  C6. \<open>unify("x", "y", {})\<close> returns \<open>{x: y}\<close>; \<open>unify("y", "a", {x: y})\<close> returns
  \<open>{x: y, y: a}\<close>; resolving \<open>x\<close> through that store gives \<open>"a"\<close>.
\<close>

theorem chained_binding_resolves:
  "unify (d + 2) (Str ''x'') (Str ''y'') Map.empty = Some (Inr (Subst [Str ''x'' \<mapsto> Str ''y'']))
   \<and> unify (d + 2) (Str ''y'') (Str ''a'') [Str ''x'' \<mapsto> Str ''y'']
       = Some (Inr (Subst [Str ''x'' \<mapsto> Str ''y'', Str ''y'' \<mapsto> Str ''a'']))
   \<and> resolve_chain (n + 3) (Str ''x'') [Str ''x'' \<mapsto> Str ''y'', Str ''y'' \<mapsto> Str ''a'']
       = Some (Str ''a'')"
  by (simp add: eval_nat_numeral py_eval)

text \<open>
  C7. \<open>unify(["p","x",["f","y"]], ["p","a",["f","z"]], {})\<close> succeeds, and the store it
  returns binds exactly \<open>x\<close> to \<open>a\<close> and \<open>y\<close> to \<open>z\<close>.
\<close>

theorem unify_compound_example:
  "unify (d + 4) (List [Str ''p'', Str ''x'', List [Str ''f'', Str ''y'']])
      (List [Str ''p'', Str ''a'', List [Str ''f'', Str ''z'']]) Map.empty =
   Some (Inr (Subst [Str ''x'' \<mapsto> Str ''a'', Str ''y'' \<mapsto> Str ''z'']))"
  by (simp add: eval_nat_numeral py_eval)

text \<open>
  C8, as stated: \<open>unify("x", ["f", "x"], {})\<close> fails with a failure kind of its own,
  OccursCheckFailure. The call fails, but what it returns is the value a mismatch of
  two constants returns.
\<close>

theorem occurs_failure_is_plain_FAILURE:
  "unify 2 (Str ''x'') (List [Str ''f'', Str ''x'']) Map.empty
     = unify 1 (Str ''A'') (Str ''B'') Map.empty"
  by (simp add: eval_nat_numeral py_eval)

text \<open>
  C8, amended. \<open>occurs_check("x", ["f", "x"])\<close> is true, and
  \<open>unify("x", ["f", "x"], {})\<close> returns \<open>"FAILURE"\<close>.
\<close>

theorem unify_var_in_own_compound:
  "occurs_check (Str ''x'') (List [Str ''f'', Str ''x''])
   \<and> unify (d + 2) (Str ''x'') (List [Str ''f'', Str ''x'']) Map.empty = Some (Inr FAILURE)"
  by (simp add: eval_nat_numeral py_eval)

text \<open>
  C9. Within a unification run a key that is present in the store is never rebound or
  overwritten: every binding of the store a \<open>unify\<close> call receives is in the store it
  returns on success, with the same value.
\<close>

theorem unify_store_only_grows:
  "unify d x y s = Some (Inr (Subst s')) \<Longrightarrow> s \<subseteq>\<^sub>m s'"
  by (rule grows_aux(1))

theorem unify_store_only_grows_witness:
  "unify 2 (Str ''y'') (Str ''a'') [Str ''x'' \<mapsto> Str ''y'']
     = Some (Inr (Subst [Str ''x'' \<mapsto> Str ''y'', Str ''y'' \<mapsto> Str ''a'']))
   \<and> [Str ''x'' \<mapsto> Str ''y''] \<subseteq>\<^sub>m [Str ''x'' \<mapsto> Str ''y'', Str ''y'' \<mapsto> Str ''a'']"
proof -
  have run: "unify 2 (Str ''y'') (Str ''a'') [Str ''x'' \<mapsto> Str ''y'']
     = Some (Inr (Subst [Str ''x'' \<mapsto> Str ''y'', Str ''y'' \<mapsto> Str ''a'']))"
    by (simp add: eval_nat_numeral py_eval)
  from unify_store_only_grows [OF run] run show ?thesis
    by simp
qed

text \<open>
  C10. The claim is that for every lowercase string \<open>v\<close> and every list \<open>t\<close> without \<open>v\<close>,
  \<open>unify(v, t, {})\<close> succeeds and binds \<open>v\<close> to \<open>tuple(t)\<close>. With a list inside \<open>t\<close>, as
  in \<open>f(g(a))\<close>, the call raises \<open>TypeError\<close> instead: \<open>tuple(x) in subst\<close> hashes a
  tuple that holds a list.
\<close>

theorem unify_var_nested_list_raises:
  "unify (d + 2) (Str ''x'') (List [Str ''f'', List [Str ''g'', Str ''a'']]) Map.empty
     = Some (Inl TypeError)"
  by (simp add: eval_nat_numeral py_eval)

end
